theory Spec2Isabelle
  imports Main "HOL-Library.Word"
begin

section \<open>The class \<open>IntWrapper\<close> and the two demonstration programs\<close>

text \<open>
  \<^verbatim>\<open>constructors.cpp\<close> and \<^verbatim>\<open>forwarding.cpp\<close> declare the same class
  \<^verbatim>\<open>IntWrapper\<close>: an \<^verbatim>\<open>int value_\<close> and a \<^verbatim>\<open>const int val2{2}\<close>, with
  six special member functions that each print a line and touch \<^verbatim>\<open>value_\<close>. The
  spec calls the two fields \<open>primary\<close> and \<open>secondary\<close>.

  An \<^verbatim>\<open>int\<close> is a 32-bit word, read as two's complement by \<open>sint\<close>. The field
  \<^verbatim>\<open>value_\<close> is written \<open>value_fld\<close>, since a HOL name cannot end in an underscore.
\<close>

type_synonym cint = "32 word"

record IntWrapper =
  value_fld :: cint
  val2 :: cint

text \<open>
  Member functions work through \<^verbatim>\<open>this\<close> and through references to other
  objects, and two references may name the same object (\<^verbatim>\<open>a = std::move(a)\<close>).
  So the objects live in a store, a reference is a position in it, and every member
  function takes the store and returns it updated, together with what was written to
  \<^verbatim>\<open>std::cout\<close>. A constructor puts its object at the first free position.
\<close>

type_synonym ref = nat

record state =
  objs :: "IntWrapper list"
  cout :: string

definition init_state :: state where
  "init_state = \<lparr>objs = [], cout = []\<rparr>"

definition live :: "ref \<Rightarrow> state \<Rightarrow> bool" where
  "live r s = (r < length (objs s))"

definition print :: "string \<Rightarrow> state \<Rightarrow> state" where
  "print txt s = s\<lparr>cout := cout s @ txt\<rparr>"

text \<open>
  \<^verbatim>\<open>std::move\<close> is a cast to an rvalue reference: it yields the value it is given.
  Initialising or assigning an \<^verbatim>\<open>int\<close> from it reads that value.
\<close>

definition std_move :: "'a \<Rightarrow> 'a" where
  "std_move x = x"

subsection \<open>Printing an \<^verbatim>\<open>int\<close>\<close>

definition digit_char :: "nat \<Rightarrow> char" where
  "digit_char d = ''0123456789'' ! d"

fun show_nat :: "nat \<Rightarrow> string" where
  "show_nat n =
     (if n < 10 then [digit_char n] else show_nat (n div 10) @ [digit_char (n mod 10)])"

declare show_nat.simps [simp del]

definition show_int :: "int \<Rightarrow> string" where
  "show_int i = (if i < 0 then CHR ''-'' # show_nat (nat (- i)) else show_nat (nat i))"

subsection \<open>Constructors\<close>

text \<open>
  \<^verbatim>\<open>IntWrapper() : value_(0) {std::cout << "default const.\n";}\<close>
  The member \<^verbatim>\<open>val2\<close> is not in the initialiser list, so its default member
  initialiser \<^verbatim>\<open>{2}\<close> applies. The same holds in the copy and in the move constructor.
\<close>

definition IntWrapper_default :: "state \<Rightarrow> ref \<times> state" where
  "IntWrapper_default s =
     (length (objs s),
      print ''default const.\<newline>'' (s\<lparr>objs := objs s @ [\<lparr>value_fld = 0, val2 = 2\<rparr>]\<rparr>))"

text \<open>
  \<^verbatim>\<open>IntWrapper(int value) : value_(value), val2{value} {std::cout << "arg constructor\n";}\<close>
\<close>

definition IntWrapper_arg :: "cint \<Rightarrow> state \<Rightarrow> ref \<times> state" where
  "IntWrapper_arg v s =
     (length (objs s),
      print ''arg constructor\<newline>'' (s\<lparr>objs := objs s @ [\<lparr>value_fld = v, val2 = v\<rparr>]\<rparr>))"

text \<open>
  \<^verbatim>\<open>IntWrapper(const IntWrapper& other) : value_(other.value_) {std::cout << "copy constructor\n";}\<close>
  A reference to no object does not occur in a C++ program with defined behaviour; the
  model answers \<open>None\<close> there.
\<close>

definition IntWrapper_copy :: "ref \<Rightarrow> state \<Rightarrow> (ref \<times> state) option" where
  "IntWrapper_copy other s =
     (if live other s
      then Some (length (objs s),
                 print ''copy constructor\<newline>''
                   (s\<lparr>objs := objs s @ [\<lparr>value_fld = value_fld (objs s ! other), val2 = 2\<rparr>]\<rparr>))
      else None)"

text \<open>
  \<^verbatim>\<open>IntWrapper(IntWrapper&& other) : value_(std::move(other.value_)) {std::cout << "move const.\n";}\<close>
\<close>

definition IntWrapper_move :: "ref \<Rightarrow> state \<Rightarrow> (ref \<times> state) option" where
  "IntWrapper_move other s =
     (if live other s
      then Some (length (objs s),
                 print ''move const.\<newline>''
                   (s\<lparr>objs := objs s @
                      [\<lparr>value_fld = std_move (value_fld (objs s ! other)), val2 = 2\<rparr>]\<rparr>))
      else None)"

subsection \<open>Assignment operators\<close>

text \<open>
  \<^verbatim>\<open>
  IntWrapper& operator=(const IntWrapper& other) {
      std::cout << "copy assignment\n";
      value_ = other.value_;
      return *this;
  }
  \<close>
  The result \<^verbatim>\<open>*this\<close> is the reference the caller already holds.
\<close>

definition copy_assign :: "ref \<Rightarrow> ref \<Rightarrow> state \<Rightarrow> state option" where
  "copy_assign this other s =
     (if live this s \<and> live other s
      then let s1 = print ''copy assignment\<newline>'' s
           in Some (s1\<lparr>objs := (objs s1)
                      [this := (objs s1 ! this)\<lparr>value_fld := value_fld (objs s1 ! other)\<rparr>]\<rparr>)
      else None)"

text \<open>
  \<^verbatim>\<open>
  IntWrapper& operator=(IntWrapper&& other) {
      std::cout << "move assignment\n";
      value_ = std::move(other.value_);
      return *this;
  }
  \<close>
\<close>

definition move_assign :: "ref \<Rightarrow> ref \<Rightarrow> state \<Rightarrow> state option" where
  "move_assign this other s =
     (if live this s \<and> live other s
      then let s1 = print ''move assignment\<newline>'' s
           in Some (s1\<lparr>objs := (objs s1)
                      [this := (objs s1 ! this)
                         \<lparr>value_fld := std_move (value_fld (objs s1 ! other))\<rparr>]\<rparr>)
      else None)"

subsection \<open>Sequences of operations on the store\<close>

text \<open>
  The class offers six operations. A program uses them in any order on the objects it
  has built; a reference is the position of the object in the order of construction.
\<close>

datatype operation =
    Default_construct
  | Value_construct cint
  | Copy_construct ref
  | Move_construct ref
  | Copy_assign ref ref
  | Move_assign ref ref

fun apply_operation :: "operation \<Rightarrow> state \<Rightarrow> state option" where
  "apply_operation Default_construct s = Some (snd (IntWrapper_default s))"
| "apply_operation (Value_construct v) s = Some (snd (IntWrapper_arg v s))"
| "apply_operation (Copy_construct other) s = map_option snd (IntWrapper_copy other s)"
| "apply_operation (Move_construct other) s = map_option snd (IntWrapper_move other s)"
| "apply_operation (Copy_assign this other) s = copy_assign this other s"
| "apply_operation (Move_assign this other) s = move_assign this other s"

fun apply_operations :: "operation list \<Rightarrow> state \<Rightarrow> state option" where
  "apply_operations [] s = Some s"
| "apply_operations (p # ps) s =
     (case apply_operation p s of None \<Rightarrow> None | Some s1 \<Rightarrow> apply_operations ps s1)"

text \<open>
  A sequence is well formed from \<open>n\<close> objects on when each operation refers to objects
  built before it, as the scoping of C++ ensures for a program's variables.
\<close>

fun refs_built :: "nat \<Rightarrow> operation \<Rightarrow> bool" where
  "refs_built n Default_construct = True"
| "refs_built n (Value_construct v) = True"
| "refs_built n (Copy_construct other) = (other < n)"
| "refs_built n (Move_construct other) = (other < n)"
| "refs_built n (Copy_assign this other) = (this < n \<and> other < n)"
| "refs_built n (Move_assign this other) = (this < n \<and> other < n)"

fun builds :: "operation \<Rightarrow> nat" where
  "builds (Copy_assign this other) = 0"
| "builds (Move_assign this other) = 0"
| "builds p = 1"

fun well_formed :: "nat \<Rightarrow> operation list \<Rightarrow> bool" where
  "well_formed n [] = True"
| "well_formed n (p # ps) = (refs_built n p \<and> well_formed (n + builds p) ps)"

subsection \<open>The program of \<^verbatim>\<open>constructors.cpp\<close>\<close>

text \<open>
  \<^verbatim>\<open>
  std::vector<IntWrapper> wrappers;
  auto wrapper = IntWrapper(22);
  IntWrapper newWrapper;
  newWrapper = wrapper; // copy assignment
  newWrapper = std::move(wrapper); // move assignment
  return 0;
  \<close>
  The vector stays empty and holds no object. \<^verbatim>\<open>auto wrapper = IntWrapper(22)\<close>
  initialises \<^verbatim>\<open>wrapper\<close> in place from the argument constructor (since C++17 by
  rule, before it by the elision every compiler performs), so no move constructor runs.
  The program is given statement by statement: each definition is the program up to
  and including the source line it is named after, with the references of the variables
  declared so far.
\<close>

definition main_line61 :: "state \<Rightarrow> ref \<times> state" where
  "main_line61 s0 = IntWrapper_arg 22 s0"

definition main_line74 :: "state \<Rightarrow> ref \<times> ref \<times> state" where
  "main_line74 s0 =
     (let (wrapper, s1) = main_line61 s0;
          (newWrapper, s2) = IntWrapper_default s1
      in (wrapper, newWrapper, s2))"

definition main_line75 :: "state \<Rightarrow> (ref \<times> ref \<times> state) option" where
  "main_line75 s0 =
     (let (wrapper, newWrapper, s2) = main_line74 s0
      in map_option (\<lambda>s3. (wrapper, newWrapper, s3)) (copy_assign newWrapper wrapper s2))"

definition main_line76 :: "state \<Rightarrow> (ref \<times> ref \<times> state) option" where
  "main_line76 s0 =
     (case main_line75 s0 of
        None \<Rightarrow> None
      | Some (wrapper, newWrapper, s3) \<Rightarrow>
          map_option (\<lambda>s4. (wrapper, newWrapper, s4))
            (move_assign newWrapper (std_move wrapper) s3))"

definition main_constructors :: "state \<Rightarrow> (int \<times> state) option" where
  "main_constructors s0 = map_option (\<lambda>(wrapper, newWrapper, s4). (0, s4)) (main_line76 s0)"

subsection \<open>The program of \<^verbatim>\<open>forwarding.cpp\<close>\<close>

text \<open>
  \<^verbatim>\<open>
  template<typename T>
  void valAssign(T&& valIn)
  {
      IntWrapper val = std::move(valIn); // calls move constructor
      std::cout << "value: " << val.value_ << std::endl;
  }
  \<close>
  The local \<^verbatim>\<open>val\<close> ends with the call; the class has no destructor of its own, so
  leaving the scope only gives the position back.
\<close>

definition valAssign :: "ref \<Rightarrow> state \<Rightarrow> state option" where
  "valAssign valIn s =
     (case IntWrapper_move (std_move valIn) s of
        None \<Rightarrow> None
      | Some (val, s1) \<Rightarrow>
          let s2 = print (''value: '' @ show_int (sint (value_fld (objs s1 ! val))) @ ''\<newline>'') s1
          in Some (s2\<lparr>objs := take val (objs s2)\<rparr>))"

text \<open>
  \<^verbatim>\<open>
  IntWrapper val(2);
  valAssign(std::move(val));
  return 0;
  \<close>
\<close>

definition main_forwarding :: "state \<Rightarrow> (int \<times> state) option" where
  "main_forwarding s0 =
     (let (val, s1) = IntWrapper_arg 2 s0
      in map_option (\<lambda>s2. (0, s2)) (valAssign (std_move val) s1))"

section \<open>What the constructors build\<close>

lemma live_simp [simp]: "live r s = (r < length (objs s))"
  by (simp add: live_def)

lemma objs_print [simp]: "objs (print txt s) = objs s"
  by (simp add: print_def)

lemma cout_print [simp]: "cout (print txt s) = cout s @ txt"
  by (simp add: print_def)

text \<open>
  C6. Default construction yields an instance whose \<open>primary\<close> (\<^verbatim>\<open>value_\<close>) is 0 and
  whose \<open>secondary\<close> (\<^verbatim>\<open>val2\<close>) is 2, in every state.
\<close>

theorem default_construct_fields:
  "value_fld (objs (snd (IntWrapper_default s)) ! fst (IntWrapper_default s)) = 0 \<and>
   val2 (objs (snd (IntWrapper_default s)) ! fst (IntWrapper_default s)) = 2"
  by (simp add: IntWrapper_default_def)

text \<open>
  C5. For every integer \<open>v\<close>, value construction with \<open>v\<close> yields an instance whose
  \<open>primary\<close> and \<open>secondary\<close> are both \<open>v\<close>.
\<close>

theorem value_construct_fields:
  "value_fld (objs (snd (IntWrapper_arg v s)) ! fst (IntWrapper_arg v s)) = v \<and>
   val2 (objs (snd (IntWrapper_arg v s)) ! fst (IntWrapper_arg v s)) = v"
  by (simp add: IntWrapper_arg_def)

text \<open>
  C1. For every constructed instance \<open>other\<close>, copy construction from it yields a new
  instance whose \<open>primary\<close> is that of \<open>other\<close> and whose \<open>secondary\<close> is 2, whatever
  the \<open>secondary\<close> of \<open>other\<close> is.
\<close>

theorem copy_construct_fields:
  assumes "other < length (objs s)"
  shows "\<exists>this s'. IntWrapper_copy other s = Some (this, s') \<and> this = length (objs s) \<and>
           value_fld (objs s' ! this) = value_fld (objs s ! other) \<and>
           val2 (objs s' ! this) = 2"
  using assms by (simp add: IntWrapper_copy_def)

theorem copy_construct_fields_witness:
  "\<exists>this s'. IntWrapper_copy 0 \<lparr>objs = [\<lparr>value_fld = 7, val2 = 7\<rparr>], cout = []\<rparr> = Some (this, s') \<and>
     this = 1 \<and> value_fld (objs s' ! this) = 7 \<and> val2 (objs s' ! this) = 2"
  using copy_construct_fields [of 0 "\<lparr>objs = [\<lparr>value_fld = 7, val2 = 7\<rparr>], cout = []\<rparr>"]
  by simp

text \<open>
  C7. For every constructed instance \<open>other\<close>, move construction from it yields a new
  instance whose \<open>primary\<close> is that of \<open>other\<close> and whose \<open>secondary\<close> is 2, the default,
  not the \<open>secondary\<close> of \<open>other\<close>.
\<close>

theorem move_construct_fields:
  assumes "other < length (objs s)"
  shows "\<exists>this s'. IntWrapper_move other s = Some (this, s') \<and> this = length (objs s) \<and>
           value_fld (objs s' ! this) = value_fld (objs s ! other) \<and>
           val2 (objs s' ! this) = 2"
  using assms by (simp add: IntWrapper_move_def std_move_def)

theorem move_construct_fields_witness:
  "\<exists>this s'. IntWrapper_move 0 \<lparr>objs = [\<lparr>value_fld = 9, val2 = 9\<rparr>], cout = []\<rparr> = Some (this, s') \<and>
     this = 1 \<and> value_fld (objs s' ! this) = 9 \<and> val2 (objs s' ! this) = 2"
  using move_construct_fields [of 0 "\<lparr>objs = [\<lparr>value_fld = 9, val2 = 9\<rparr>], cout = []\<rparr>"]
  by simp

section \<open>What the assignment operators change\<close>

text \<open>
  C4. For every existing destination \<open>d\<close> and every constructed source \<open>other\<close>, copy
  assignment of \<open>other\<close> to \<open>d\<close> sets the \<open>primary\<close> of \<open>d\<close> to that of \<open>other\<close> and
  leaves the \<open>secondary\<close> of \<open>d\<close> as it was before the assignment.
\<close>

theorem copy_assign_frame:
  assumes "d < length (objs s)" and "other < length (objs s)"
  shows "\<exists>s'. copy_assign d other s = Some s' \<and>
           value_fld (objs s' ! d) = value_fld (objs s ! other) \<and>
           val2 (objs s' ! d) = val2 (objs s ! d)"
  using assms by (simp add: copy_assign_def Let_def)

theorem copy_assign_frame_witness:
  "\<exists>s'. copy_assign 1 0
           \<lparr>objs = [\<lparr>value_fld = 22, val2 = 22\<rparr>, \<lparr>value_fld = 0, val2 = 2\<rparr>], cout = []\<rparr> = Some s' \<and>
     value_fld (objs s' ! 1) = 22 \<and> val2 (objs s' ! 1) = 2"
  using copy_assign_frame
    [of 1 "\<lparr>objs = [\<lparr>value_fld = 22, val2 = 22\<rparr>, \<lparr>value_fld = 0, val2 = 2\<rparr>], cout = []\<rparr>" 0]
  by simp

text \<open>
  C3. For every destination \<open>d\<close> and source \<open>other\<close>, move assignment of \<open>other\<close> to \<open>d\<close>
  leaves \<open>d\<close> with the same \<open>primary\<close> and the same \<open>secondary\<close> as copy assignment of
  \<open>other\<close> to \<open>d\<close> does from the same state.
\<close>

theorem move_assign_as_copy_assign:
  assumes "d < length (objs s)" and "other < length (objs s)"
  shows "\<exists>sc sm. copy_assign d other s = Some sc \<and> move_assign d other s = Some sm \<and>
           value_fld (objs sm ! d) = value_fld (objs sc ! d) \<and>
           val2 (objs sm ! d) = val2 (objs sc ! d)"
  using assms by (simp add: copy_assign_def move_assign_def std_move_def Let_def)

theorem move_assign_as_copy_assign_witness:
  "\<exists>sc sm.
     copy_assign 0 1
       \<lparr>objs = [\<lparr>value_fld = 5, val2 = 5\<rparr>, \<lparr>value_fld = 8, val2 = 2\<rparr>], cout = []\<rparr> = Some sc \<and>
     move_assign 0 1
       \<lparr>objs = [\<lparr>value_fld = 5, val2 = 5\<rparr>, \<lparr>value_fld = 8, val2 = 2\<rparr>], cout = []\<rparr> = Some sm \<and>
     value_fld (objs sm ! 0) = value_fld (objs sc ! 0) \<and> val2 (objs sm ! 0) = val2 (objs sc ! 0)"
  using move_assign_as_copy_assign
    [of 0 "\<lparr>objs = [\<lparr>value_fld = 5, val2 = 5\<rparr>, \<lparr>value_fld = 8, val2 = 2\<rparr>], cout = []\<rparr>" 1]
  by simp

text \<open>
  C10. For every source \<open>other\<close>, move construction from \<open>other\<close> and move assignment
  from \<open>other\<close> (to any destination \<open>d\<close>, \<open>other\<close> itself included) leave \<open>other\<close> with
  the \<open>primary\<close> and the \<open>secondary\<close> it had before: moving an \<^verbatim>\<open>int\<close> reads it.
\<close>

theorem move_leaves_source:
  assumes "d < length (objs s)" and "other < length (objs s)"
  shows "(\<exists>this s'. IntWrapper_move other s = Some (this, s') \<and>
            value_fld (objs s' ! other) = value_fld (objs s ! other) \<and>
            val2 (objs s' ! other) = val2 (objs s ! other)) \<and>
         (\<exists>s'. move_assign d other s = Some s' \<and>
            value_fld (objs s' ! other) = value_fld (objs s ! other) \<and>
            val2 (objs s' ! other) = val2 (objs s ! other))"
proof
  show "\<exists>this s'. IntWrapper_move other s = Some (this, s') \<and>
            value_fld (objs s' ! other) = value_fld (objs s ! other) \<and>
            val2 (objs s' ! other) = val2 (objs s ! other)"
    using assms(2) by (simp add: IntWrapper_move_def nth_append)
next
  show "\<exists>s'. move_assign d other s = Some s' \<and>
            value_fld (objs s' ! other) = value_fld (objs s ! other) \<and>
            val2 (objs s' ! other) = val2 (objs s ! other)"
  proof (cases "d = other")
    case True
    with assms show ?thesis
      by (simp add: move_assign_def std_move_def Let_def)
  next
    case False
    with assms show ?thesis
      by (simp add: move_assign_def Let_def)
  qed
qed

theorem move_leaves_source_witness:
  "(\<exists>this s'.
      IntWrapper_move 0
        \<lparr>objs = [\<lparr>value_fld = 22, val2 = 22\<rparr>, \<lparr>value_fld = 0, val2 = 2\<rparr>], cout = []\<rparr> =
        Some (this, s') \<and>
      value_fld (objs s' ! 0) = 22 \<and> val2 (objs s' ! 0) = 22) \<and>
   (\<exists>s'.
      move_assign 1 0
        \<lparr>objs = [\<lparr>value_fld = 22, val2 = 22\<rparr>, \<lparr>value_fld = 0, val2 = 2\<rparr>], cout = []\<rparr> = Some s' \<and>
      value_fld (objs s' ! 0) = 22 \<and> val2 (objs s' ! 0) = 22)"
  using move_leaves_source
    [of 1 "\<lparr>objs = [\<lparr>value_fld = 22, val2 = 22\<rparr>, \<lparr>value_fld = 0, val2 = 2\<rparr>], cout = []\<rparr>" 0]
  by simp

section \<open>The secondary field over the life of an instance\<close>

lemma apply_operation_val2:
  assumes "refs_built (length (objs s)) p"
  shows "\<exists>s'. apply_operation p s = Some s' \<and>
           length (objs s') = length (objs s) + builds p \<and>
           (\<forall>r<length (objs s). val2 (objs s' ! r) = val2 (objs s ! r))"
  using assms
  by (cases p)
     (simp_all add: IntWrapper_default_def IntWrapper_arg_def IntWrapper_copy_def
        IntWrapper_move_def copy_assign_def move_assign_def Let_def nth_append nth_list_update)

text \<open>
  C2. The \<open>secondary\<close> of an instance is set when the instance is constructed, and no
  later operation changes it: for every instance \<open>r\<close> of a state and every well-formed
  sequence of operations run from that state (constructions of further instances, copy
  and move assignments to \<open>r\<close> or to others, from \<open>r\<close> or from others), the sequence
  runs to the end, \<open>r\<close> is still there and its \<open>secondary\<close> is what it was.
\<close>

theorem secondary_fixed_for_lifetime:
  assumes "well_formed (length (objs s)) ps" and "r < length (objs s)"
  shows "\<exists>s'. apply_operations ps s = Some s' \<and> r < length (objs s') \<and>
           val2 (objs s' ! r) = val2 (objs s ! r)"
  using assms
proof (induction ps arbitrary: s)
  case Nil
  then show ?case by simp
next
  case (Cons p ps)
  from Cons.prems(1) have built: "refs_built (length (objs s)) p"
    and rest: "well_formed (length (objs s) + builds p) ps"
    by simp_all
  from apply_operation_val2 [OF built] obtain s1 where
    step: "apply_operation p s = Some s1" and
    len: "length (objs s1) = length (objs s) + builds p" and
    same: "\<forall>r<length (objs s). val2 (objs s1 ! r) = val2 (objs s ! r)"
    by blast
  from rest len have "well_formed (length (objs s1)) ps" by simp
  moreover from Cons.prems(2) len have "r < length (objs s1)" by simp
  ultimately obtain s' where
    "apply_operations ps s1 = Some s'" "r < length (objs s')"
    "val2 (objs s' ! r) = val2 (objs s1 ! r)"
    using Cons.IH by blast
  with step same Cons.prems(2) show ?case by simp
qed

theorem secondary_fixed_for_lifetime_witness:
  "\<exists>s'. apply_operations [Copy_assign 1 0, Move_assign 1 0, Copy_construct 1, Move_assign 1 2]
           \<lparr>objs = [\<lparr>value_fld = 22, val2 = 22\<rparr>, \<lparr>value_fld = 0, val2 = 2\<rparr>], cout = []\<rparr> = Some s' \<and>
        1 < length (objs s') \<and> val2 (objs s' ! 1) = 2"
  using secondary_fixed_for_lifetime
    [of "\<lparr>objs = [\<lparr>value_fld = 22, val2 = 22\<rparr>, \<lparr>value_fld = 0, val2 = 2\<rparr>], cout = []\<rparr>"
        "[Copy_assign 1 0, Move_assign 1 0, Copy_construct 1, Move_assign 1 2]" 1]
  by simp

section \<open>The two programs\<close>

text \<open>
  C8. In \<^verbatim>\<open>main\<close> of \<^verbatim>\<open>constructors.cpp\<close>, run from the empty state: after
  \<^verbatim>\<open>auto wrapper = IntWrapper(22)\<close> the fields of \<^verbatim>\<open>wrapper\<close> are 22 and 22; after
  \<^verbatim>\<open>IntWrapper newWrapper\<close> the fields of \<^verbatim>\<open>newWrapper\<close> are 0 and 2; after
  \<^verbatim>\<open>newWrapper = wrapper\<close> they are 22 and 2; after
  \<^verbatim>\<open>newWrapper = std::move(wrapper)\<close> they are 22 and 2.
\<close>

theorem main_constructors_scenario:
  "(\<lambda>(wrapper, s). (value_fld (objs s ! wrapper), val2 (objs s ! wrapper)))
      (main_line61 init_state) = (22, 22) \<and>
   (\<lambda>(wrapper, newWrapper, s). (value_fld (objs s ! newWrapper), val2 (objs s ! newWrapper)))
      (main_line74 init_state) = (0, 2) \<and>
   map_option
     (\<lambda>(wrapper, newWrapper, s). (value_fld (objs s ! newWrapper), val2 (objs s ! newWrapper)))
     (main_line75 init_state) = Some (22, 2) \<and>
   map_option
     (\<lambda>(wrapper, newWrapper, s). (value_fld (objs s ! newWrapper), val2 (objs s ! newWrapper)))
     (main_line76 init_state) = Some (22, 2)"
  by (simp add: main_line61_def main_line74_def main_line75_def main_line76_def init_state_def
      IntWrapper_arg_def IntWrapper_default_def copy_assign_def move_assign_def std_move_def
      Let_def)

text \<open>
  C9. \<^verbatim>\<open>main\<close> of \<^verbatim>\<open>forwarding.cpp\<close>, run from the empty state, constructs
  \<^verbatim>\<open>val\<close> from 2, hands it to \<^verbatim>\<open>valAssign\<close>, which move-constructs its local from
  it and prints the local's \<^verbatim>\<open>value_\<close>: the value printed is 2.
\<close>

theorem main_forwarding_output:
  "map_option (\<lambda>(rc, s). cout s) (main_forwarding init_state) =
     Some ''arg constructor\<newline>move const.\<newline>value: 2\<newline>''"
  by (simp add: main_forwarding_def valAssign_def init_state_def IntWrapper_arg_def
      IntWrapper_move_def std_move_def Let_def show_int_def show_nat.simps digit_char_def)

end
